theory Spec2Isabelle
  imports Main
begin

section \<open>Data model\<close>

text \<open>
  The program under study is the script \<^verbatim>\<open>apps/site/public/images.py\<close>: it turns one
  vector icon into three PNG favicons, one temporary 256x256 PNG and one multi-resolution
  ICO file, printing a line after each deliverable. Everything it does is an effect on the
  file system or on the console, so the model threads a world through the script: the
  files on disk and the chronological trace of the effects of the run.
\<close>

text \<open>A pixel grid. The pixel data is left abstract (type \<open>'p\<close>).\<close>

record 'p raster =
  width :: int
  height :: int
  pixels :: 'p

text \<open>
  What a file on disk holds: a vector graphic description (type \<open>'v\<close>, the bytes of the
  source), a PNG-encoded raster, or an ICO container with its embedded frames.
\<close>

datatype ('v, 'p) content =
  Svg 'v
| Png "'p raster"
| Ico "'p raster list"

text \<open>The failure taxonomy: every exception of the run is one of these.\<close>

datatype error = RenderFailure | WriteFailure | PackFailure

text \<open>The observable effects: a completed file write and a line printed to the console.\<close>

datatype event = Wrote string | Printed string

record ('v, 'p) world =
  files :: "string \<Rightarrow> ('v, 'p) content option"
  trace :: "event list"

text \<open>
  What the run does not control: the vector-to-raster renderer, the resampling filter of
  the image library, and which paths of the working directory can be written.
  \<open>rasterize v w h = None\<close> stands for a malformed source or a rendering engine error.
\<close>

record ('v, 'p) env =
  rasterize :: "'v \<Rightarrow> int \<Rightarrow> int \<Rightarrow> 'p option"
  resample :: "'p raster \<Rightarrow> int \<times> int \<Rightarrow> 'p"
  writable :: "string \<Rightarrow> bool"

section \<open>The libraries the script calls\<close>

text \<open>
  Modelled from the spec: the file write that both libraries end with (the libraries are
  third-party packages, not part of the repository). An unwritable path raises a
  WriteFailure and leaves the disk as it was; a completed write replaces the content of
  the path and is logged.
\<close>

definition write_file ::
  "('v, 'p) env \<Rightarrow> string \<Rightarrow> ('v, 'p) content \<Rightarrow> ('v, 'p) world \<Rightarrow> (error + unit) \<times> ('v, 'p) world" where
  "write_file e path c w =
     (if writable e path
      then (Inr (), w\<lparr>files := (files w)(path \<mapsto> c), trace := trace w @ [Wrote path]\<rparr>)
      else (Inl WriteFailure, w))"

text \<open>
  Modelled from the spec: \<^verbatim>\<open>cairosvg.svg2png(url, write_to, output_width, output_height)\<close>
  (Operation A's per-entry render). The source is read and rendered first: a missing or
  malformed source, or a rendering error, is a RenderFailure raised before any write.
  The raster has exactly the requested width and height and is then written as a PNG.
\<close>

definition svg2png ::
  "('v, 'p) env \<Rightarrow> string \<Rightarrow> string \<Rightarrow> int \<Rightarrow> int \<Rightarrow> ('v, 'p) world \<Rightarrow> (error + unit) \<times> ('v, 'p) world" where
  "svg2png e url write_to output_width output_height w =
     (case files w url of
        Some (Svg v) \<Rightarrow>
          (case rasterize e v output_width output_height of
             Some px \<Rightarrow>
               write_file e write_to
                 (Png \<lparr>width = output_width, height = output_height, pixels = px\<rparr>) w
           | None \<Rightarrow> (Inl RenderFailure, w))
      | _ \<Rightarrow> (Inl RenderFailure, w))"

text \<open>
  Modelled from the spec: \<^verbatim>\<open>Image.open(fp)\<close> of the image library. It decodes the
  raster stored at the path; a file that is missing or cannot be decoded is a PackFailure
  (Operation C's failure mode). The script only ever opens the PNG it has just written.
\<close>

definition Image_open ::
  "string \<Rightarrow> ('v, 'p) world \<Rightarrow> (error + 'p raster) \<times> ('v, 'p) world" where
  "Image_open fp w =
     (case files w fp of
        Some (Png r) \<Rightarrow> (Inr r, w)
      | _ \<Rightarrow> (Inl PackFailure, w))"

text \<open>
  Modelled from the spec: one embedded frame of the container. A frame of the size of the
  image is the image itself; any other frame is derived by resampling the image to the
  requested size.
\<close>

definition ico_frame :: "('v, 'p) env \<Rightarrow> 'p raster \<Rightarrow> int \<times> int \<Rightarrow> 'p raster" where
  "ico_frame e img s =
     (if (width img, height img) = s then img
      else \<lparr>width = fst s, height = snd s, pixels = resample e img s\<rparr>)"

text \<open>
  Modelled from the spec: \<^verbatim>\<open>img.save(fp, format='ICO', sizes=...)\<close> of the image library
  (Operation C). The container embeds one frame per requested size; the library documents
  that a requested size larger than the image or than 256 is ignored.
\<close>

definition save_ico ::
  "('v, 'p) env \<Rightarrow> 'p raster \<Rightarrow> string \<Rightarrow> (int \<times> int) list \<Rightarrow> ('v, 'p) world \<Rightarrow> (error + unit) \<times> ('v, 'p) world" where
  "save_ico e img fp szs w =
     write_file e fp
       (Ico (map (ico_frame e img)
          (filter (\<lambda>s. \<not> (fst s > width img \<or> snd s > height img \<or> fst s > 256 \<or> snd s > 256)) szs))) w"

text \<open>\<^verbatim>\<open>print(line)\<close>: the line is appended to the console; it cannot fail.\<close>

definition print :: "string \<Rightarrow> ('v, 'p) world \<Rightarrow> (error + unit) \<times> ('v, 'p) world" where
  "print line w = (Inr (), w\<lparr>trace := trace w @ [Printed line]\<rparr>)"

section \<open>The script\<close>

definition input_svg :: string where
  "input_svg = ''favicon.svg''"

text \<open>The dictionary \<^verbatim>\<open>sizes\<close>, as the list of its items in insertion order.\<close>

definition sizes :: "(string \<times> int) list" where
  "sizes =
     [(''favicon-16x16.png'', 16),
      (''favicon-32x32.png'', 32),
      (''apple-touch-icon.png'', 180)]"

text \<open>The f-string \<^verbatim>\<open>f"Created {filename}"\<close>.\<close>

definition created :: "string \<Rightarrow> string" where
  "created filename = ''Created '' @ filename"

text \<open>
  Step 2 of the script, the loop \<^verbatim>\<open>for filename, size in sizes.items()\<close>: render, then
  print. An exception leaves the loop at once, with the world as it is at that point.
\<close>

fun batch_rasterize ::
  "('v, 'p) env \<Rightarrow> (string \<times> int) list \<Rightarrow> ('v, 'p) world \<Rightarrow> (error + unit) \<times> ('v, 'p) world" where
  "batch_rasterize e [] w = (Inr (), w)"
| "batch_rasterize e ((filename, sz) # rest) w =
     (case svg2png e input_svg filename sz sz w of
        (Inl err, w') \<Rightarrow> (Inl err, w')
      | (Inr _, w') \<Rightarrow>
          (case print (created filename) w' of
             (Inl err, w'') \<Rightarrow> (Inl err, w'')
           | (Inr _, w'') \<Rightarrow> batch_rasterize e rest w''))"

text \<open>Step 3, first statement: the 256x256 render to \<^verbatim>\<open>temp_256.png\<close>.\<close>

definition high_res_render ::
  "('v, 'p) env \<Rightarrow> ('v, 'p) world \<Rightarrow> (error + unit) \<times> ('v, 'p) world" where
  "high_res_render e w = svg2png e input_svg ''temp_256.png'' 256 256 w"

text \<open>Step 3, the rest: open the temporary raster, save the container, print.\<close>

definition pack_container ::
  "('v, 'p) env \<Rightarrow> ('v, 'p) world \<Rightarrow> (error + unit) \<times> ('v, 'p) world" where
  "pack_container e w =
     (case Image_open ''temp_256.png'' w of
        (Inl err, w') \<Rightarrow> (Inl err, w')
      | (Inr img, w') \<Rightarrow>
          (case save_ico e img ''favicon.ico'' [(16, 16), (32, 32), (48, 48), (256, 256)] w' of
             (Inl err, w'') \<Rightarrow> (Inl err, w'')
           | (Inr _, w'') \<Rightarrow> print ''Created favicon.ico'' w''))"

text \<open>
  The module body with the dictionary as a parameter, and the script itself, which runs it
  on \<open>sizes\<close>.
\<close>

definition pipeline ::
  "('v, 'p) env \<Rightarrow> (string \<times> int) list \<Rightarrow> ('v, 'p) world \<Rightarrow> (error + unit) \<times> ('v, 'p) world" where
  "pipeline e szs w =
     (case batch_rasterize e szs w of
        (Inl err, w1) \<Rightarrow> (Inl err, w1)
      | (Inr _, w1) \<Rightarrow>
          (case high_res_render e w1 of
             (Inl err, w2) \<Rightarrow> (Inl err, w2)
           | (Inr _, w2) \<Rightarrow> pack_container e w2))"

definition main :: "('v, 'p) env \<Rightarrow> ('v, 'p) world \<Rightarrow> (error + unit) \<times> ('v, 'p) world" where
  "main e w = pipeline e sizes w"

text \<open>A run starts on the files found on disk, with nothing written or printed yet.\<close>

definition initial :: "(string \<Rightarrow> ('v, 'p) content option) \<Rightarrow> ('v, 'p) world" where
  "initial fs = \<lparr>files = fs, trace = []\<rparr>"

section \<open>Reading a trace\<close>

text \<open>The paths written, in order, and the console, line by line.\<close>

fun written :: "event list \<Rightarrow> string list" where
  "written [] = []"
| "written (Wrote p # es) = p # written es"
| "written (Printed l # es) = written es"

fun console :: "event list \<Rightarrow> string list" where
  "console [] = []"
| "console (Wrote p # es) = console es"
| "console (Printed l # es) = l # console es"

text \<open>
  Whether every printed line is the confirmation of a file written earlier in the trace
  (\<open>ws\<close> are the files written before the trace starts).
\<close>

fun confirms_written :: "string list \<Rightarrow> event list \<Rightarrow> bool" where
  "confirms_written ws [] = True"
| "confirms_written ws (Wrote p # es) = confirms_written (p # ws) es"
| "confirms_written ws (Printed l # es) =
     (l \<in> set (map created ws) \<and> confirms_written ws es)"

section \<open>A sample environment\<close>

text \<open>
  A concrete environment to run the script on. Its pixel data is symbolic: a picture is
  either the rendering of a source at a size, or a picture resampled to a size, so that a
  render and a resample are never confused. Every path of the working directory can be
  written. The disk holds the vector source only.
\<close>

datatype picture = Rendered nat int int | Resampled picture int int

definition sample_env :: "(nat, picture) env" where
  "sample_env =
     \<lparr>rasterize = (\<lambda>v w h. Some (Rendered v w h)),
      resample = (\<lambda>img s. Resampled (pixels img) (fst s) (snd s)),
      writable = (\<lambda>p. True)\<rparr>"

definition sample_disk :: "string \<Rightarrow> (nat, picture) content option" where
  "sample_disk = Map.empty(''favicon.svg'' \<mapsto> Svg 7)"

text \<open>The same environment with the second output path read-only, and a disk with no source.\<close>

definition locked_env :: "(nat, picture) env" where
  "locked_env = sample_env\<lparr>writable := (\<lambda>p. p \<noteq> ''favicon-32x32.png'')\<rparr>"

definition empty_disk :: "string \<Rightarrow> (nat, picture) content option" where
  "empty_disk = Map.empty"

section \<open>Basic facts\<close>

lemmas sample_defs = sample_env_def sample_disk_def locked_env_def empty_disk_def

lemmas script_defs =
  main_def pipeline_def sizes_def initial_def high_res_render_def pack_container_def
  svg2png_def write_file_def print_def created_def input_svg_def Image_open_def save_ico_def
  ico_frame_def

lemma written_append: "written (xs @ ys) = written xs @ written ys"
  by (induction xs rule: written.induct) simp_all

lemma console_append: "console (xs @ ys) = console xs @ console ys"
  by (induction xs rule: console.induct) simp_all

text \<open>A render that returns has read a well-formed source and completed its write.\<close>

lemma svg2png_Inr:
  "svg2png e u f a b w = (Inr x, w') \<longleftrightarrow>
     (\<exists>v px. files w u = Some (Svg v) \<and> rasterize e v a b = Some px \<and> writable e f \<and>
        w' = w\<lparr>files := (files w)(f \<mapsto> Png \<lparr>width = a, height = b, pixels = px\<rparr>),
               trace := trace w @ [Wrote f]\<rparr>)"
  by (auto simp: svg2png_def write_file_def split: option.splits content.splits)

text \<open>A render that raises has changed nothing.\<close>

lemma svg2png_Inl:
  "svg2png e u f a b w = (Inl err, w') \<Longrightarrow> w' = w"
  by (auto simp: svg2png_def write_file_def split: option.splits content.splits if_splits)

lemma high_res_render_Inr:
  "high_res_render e w = (Inr u, w') \<longleftrightarrow>
     (\<exists>v px. files w input_svg = Some (Svg v) \<and> rasterize e v 256 256 = Some px \<and>
        writable e ''temp_256.png'' \<and>
        w' = w\<lparr>files := (files w)(''temp_256.png'' \<mapsto>
                  Png \<lparr>width = 256, height = 256, pixels = px\<rparr>),
               trace := trace w @ [Wrote ''temp_256.png'']\<rparr>)"
  by (simp add: high_res_render_def svg2png_Inr)

lemma pack_container_Inr:
  assumes "pack_container e w = (Inr u, w')"
  shows "\<exists>img. files w ''temp_256.png'' = Some (Png img) \<and> writable e ''favicon.ico'' \<and>
        w' = w\<lparr>files := (files w)(''favicon.ico'' \<mapsto>
                  Ico (map (ico_frame e img)
                     (filter (\<lambda>s. \<not> (fst s > width img \<or> snd s > height img \<or>
                                     fst s > 256 \<or> snd s > 256))
                        [(16, 16), (32, 32), (48, 48), (256, 256)]))),
               trace := trace w @ [Wrote ''favicon.ico'', Printed ''Created favicon.ico'']\<rparr>"
  using assms
  by (cases "writable e ''favicon.ico''")
     (simp_all add: pack_container_def Image_open_def save_ico_def write_file_def print_def
      del: filter.simps split: option.splits content.splits)

lemma pipeline_Inr:
  "pipeline e szs w = (Inr u, w') \<longleftrightarrow>
     (\<exists>w1 w2. batch_rasterize e szs w = (Inr (), w1) \<and> high_res_render e w1 = (Inr (), w2) \<and>
        pack_container e w2 = (Inr u, w'))"
  by (simp add: pipeline_def split: prod.splits sum.splits)

text \<open>The loop over the three entries of \<open>sizes\<close>, when it completes.\<close>

lemma batch_sizes_Inr:
  assumes "batch_rasterize e sizes w = (Inr u, w')"
  shows "\<exists>v p16 p32 p180. files w input_svg = Some (Svg v) \<and>
     rasterize e v 16 16 = Some p16 \<and> rasterize e v 32 32 = Some p32 \<and>
     rasterize e v 180 180 = Some p180 \<and>
     w' = w\<lparr>files := (files w)
        (''favicon-16x16.png'' \<mapsto> Png \<lparr>width = 16, height = 16, pixels = p16\<rparr>,
         ''favicon-32x32.png'' \<mapsto> Png \<lparr>width = 32, height = 32, pixels = p32\<rparr>,
         ''apple-touch-icon.png'' \<mapsto> Png \<lparr>width = 180, height = 180, pixels = p180\<rparr>),
       trace := trace w @
        [Wrote ''favicon-16x16.png'', Printed ''Created favicon-16x16.png'',
         Wrote ''favicon-32x32.png'', Printed ''Created favicon-32x32.png'',
         Wrote ''apple-touch-icon.png'', Printed ''Created apple-touch-icon.png'']\<rparr>"
  using assms
  by (simp add: sizes_def svg2png_def write_file_def print_def created_def input_svg_def
      split: option.splits content.splits if_splits)

section \<open>The loop, entry by entry\<close>

lemma batch_Cons_Inr:
  "batch_rasterize e ((n, s) # rest) w = (Inr u, w') \<longleftrightarrow>
     (\<exists>w1. svg2png e input_svg n s s w = (Inr (), w1) \<and>
        batch_rasterize e rest (w1\<lparr>trace := trace w1 @ [Printed (created n)]\<rparr>) = (Inr u, w'))"
  by (simp add: print_def split: prod.splits sum.splits)

text \<open>Running the loop on a list in two parts: the second part runs only if the first completes.\<close>

lemma batch_rasterize_append:
  "batch_rasterize e (xs @ ys) w =
     (case batch_rasterize e xs w of
        (Inl err, w') \<Rightarrow> (Inl err, w')
      | (Inr _, w') \<Rightarrow> batch_rasterize e ys w')"
proof (induction xs arbitrary: w)
  case Nil
  show ?case by simp
next
  case (Cons x xs)
  obtain n s where x: "x = (n, s)" by (cases x)
  obtain r w1 where step: "svg2png e input_svg n s s w = (r, w1)"
    by (cases "svg2png e input_svg n s s w")
  show ?case
  proof (cases r)
    case (Inl err)
    with step show ?thesis by (simp add: x)
  next
    case (Inr v)
    with step show ?thesis by (simp add: x print_def Cons.IH)
  qed
qed

lemma batch_written:
  "batch_rasterize e xs w = (Inr u, w') \<Longrightarrow>
     written (trace w') = written (trace w) @ map fst xs"
proof (induction xs arbitrary: w)
  case Nil
  then show ?case by simp
next
  case (Cons x xs)
  obtain n s where x: "x = (n, s)" by (cases x)
  from Cons.prems obtain w1 where
    step: "svg2png e input_svg n s s w = (Inr (), w1)" and
    rest: "batch_rasterize e xs (w1\<lparr>trace := trace w1 @ [Printed (created n)]\<rparr>) = (Inr u, w')"
    unfolding x batch_Cons_Inr by blast
  from step have "trace w1 = trace w @ [Wrote n]"
    by (auto simp: svg2png_Inr)
  with Cons.IH [OF rest] show ?case
    by (simp add: x written_append)
qed

lemma batch_console:
  "batch_rasterize e xs w = (Inr u, w') \<Longrightarrow>
     console (trace w') = console (trace w) @ map (\<lambda>(n, s). created n) xs"
proof (induction xs arbitrary: w)
  case Nil
  then show ?case by simp
next
  case (Cons x xs)
  obtain n s where x: "x = (n, s)" by (cases x)
  from Cons.prems obtain w1 where
    step: "svg2png e input_svg n s s w = (Inr (), w1)" and
    rest: "batch_rasterize e xs (w1\<lparr>trace := trace w1 @ [Printed (created n)]\<rparr>) = (Inr u, w')"
    unfolding x batch_Cons_Inr by blast
  from step have "trace w1 = trace w @ [Wrote n]"
    by (auto simp: svg2png_Inr)
  with Cons.IH [OF rest] show ?case
    by (simp add: x console_append)
qed

text \<open>The loop touches no path outside the keys it runs over.\<close>

lemma batch_frame:
  "batch_rasterize e xs w = (Inr u, w') \<Longrightarrow> p \<notin> fst ` set xs \<Longrightarrow> files w' p = files w p"
proof (induction xs arbitrary: w)
  case Nil
  then show ?case by simp
next
  case (Cons x xs)
  obtain n s where x: "x = (n, s)" by (cases x)
  from Cons.prems obtain w1 where
    step: "svg2png e input_svg n s s w = (Inr (), w1)" and
    rest: "batch_rasterize e xs (w1\<lparr>trace := trace w1 @ [Printed (created n)]\<rparr>) = (Inr u, w')"
    unfolding x batch_Cons_Inr by blast
  from Cons.prems(2) have "p \<noteq> n" and "p \<notin> fst ` set xs"
    by (auto simp: x)
  with step Cons.IH [OF rest] show ?case
    by (auto simp: svg2png_Inr)
qed

lemma batch_files:
  "batch_rasterize e xs w = (Inr u, w') \<Longrightarrow> distinct (map fst xs) \<Longrightarrow> (n, s) \<in> set xs \<Longrightarrow>
     \<exists>px. files w' n = Some (Png \<lparr>width = s, height = s, pixels = px\<rparr>)"
proof (induction xs arbitrary: w)
  case Nil
  then show ?case by simp
next
  case (Cons x xs)
  obtain m t where x: "x = (m, t)" by (cases x)
  from Cons.prems(1) obtain w1 where
    step: "svg2png e input_svg m t t w = (Inr (), w1)" and
    rest: "batch_rasterize e xs (w1\<lparr>trace := trace w1 @ [Printed (created m)]\<rparr>) = (Inr u, w')"
    unfolding x batch_Cons_Inr by blast
  show ?case
  proof (cases "(n, s) \<in> set xs")
    case True
    with Cons.IH [OF rest] Cons.prems(2) show ?thesis by simp
  next
    case False
    with Cons.prems(3) have here: "n = m" "s = t" by (auto simp: x)
    from Cons.prems(2) have "m \<notin> fst ` set xs" by (simp add: x)
    from batch_frame [OF rest this] step show ?thesis
      by (auto simp: svg2png_Inr here)
  qed
qed

section \<open>The whole run\<close>

lemma main_missing_source:
  "files w input_svg = None \<Longrightarrow> main e w = (Inl RenderFailure, w)"
  by (simp add: main_def pipeline_def sizes_def svg2png_def)

lemma pipeline_stops_in_batch:
  assumes pre: "batch_rasterize e pre w = (Inr (), w1)"
    and fail: "svg2png e input_svg n s s w1 = (Inl err, w2)"
  shows "pipeline e (pre @ (n, s) # post) w = (Inl err, w1)"
proof -
  from svg2png_Inl [OF fail] fail have "svg2png e input_svg n s s w1 = (Inl err, w1)"
    by simp
  then have "batch_rasterize e ((n, s) # post) w1 = (Inl err, w1)"
    by simp
  with pre have "batch_rasterize e (pre @ (n, s) # post) w = (Inl err, w1)"
    by (simp add: batch_rasterize_append)
  then show ?thesis
    by (simp add: pipeline_def)
qed

text \<open>Operation C, however it ends, leaves the temporary raster as it found it.\<close>

lemma pack_container_keeps_temp:
  assumes "pack_container e w = (r, w')"
  shows "files w' ''temp_256.png'' = files w ''temp_256.png''"
  using assms
  by (cases "writable e ''favicon.ico''")
     (auto simp: pack_container_def Image_open_def save_ico_def write_file_def print_def
      simp del: filter.simps split: option.splits content.splits)

text \<open>A run that completes, in closed form.\<close>

lemma main_Inr:
  assumes "main e w = (Inr u, w')"
  shows "\<exists>v p16 p32 p180 p256. files w input_svg = Some (Svg v) \<and>
     rasterize e v 16 16 = Some p16 \<and> rasterize e v 32 32 = Some p32 \<and>
     rasterize e v 180 180 = Some p180 \<and> rasterize e v 256 256 = Some p256 \<and>
     w' = w\<lparr>files := (files w)
        (''favicon-16x16.png'' \<mapsto> Png \<lparr>width = 16, height = 16, pixels = p16\<rparr>,
         ''favicon-32x32.png'' \<mapsto> Png \<lparr>width = 32, height = 32, pixels = p32\<rparr>,
         ''apple-touch-icon.png'' \<mapsto> Png \<lparr>width = 180, height = 180, pixels = p180\<rparr>,
         ''temp_256.png'' \<mapsto> Png \<lparr>width = 256, height = 256, pixels = p256\<rparr>,
         ''favicon.ico'' \<mapsto> Ico
            [\<lparr>width = 16, height = 16,
              pixels = resample e \<lparr>width = 256, height = 256, pixels = p256\<rparr> (16, 16)\<rparr>,
             \<lparr>width = 32, height = 32,
              pixels = resample e \<lparr>width = 256, height = 256, pixels = p256\<rparr> (32, 32)\<rparr>,
             \<lparr>width = 48, height = 48,
              pixels = resample e \<lparr>width = 256, height = 256, pixels = p256\<rparr> (48, 48)\<rparr>,
             \<lparr>width = 256, height = 256, pixels = p256\<rparr>]),
       trace := trace w @
        [Wrote ''favicon-16x16.png'', Printed ''Created favicon-16x16.png'',
         Wrote ''favicon-32x32.png'', Printed ''Created favicon-32x32.png'',
         Wrote ''apple-touch-icon.png'', Printed ''Created apple-touch-icon.png'',
         Wrote ''temp_256.png'', Wrote ''favicon.ico'', Printed ''Created favicon.ico'']\<rparr>"
  using assms
  by (simp add: main_def pipeline_def sizes_def high_res_render_def pack_container_def
      svg2png_def write_file_def print_def created_def input_svg_def Image_open_def save_ico_def
      ico_frame_def split: option.splits content.splits if_splits)

text \<open>
  Any run, completed or not: the source is not among the paths written, no path is written
  twice, a path that was not written holds what it held, a path that was written exists.
\<close>

lemma main_frame:
  assumes "main e (initial fs) = (r, w')"
  shows "input_svg \<notin> set (written (trace w')) \<and> distinct (written (trace w')) \<and>
    (\<forall>p. p \<notin> set (written (trace w')) \<longrightarrow> files w' p = fs p) \<and>
    (\<forall>p \<in> set (written (trace w')). files w' p \<noteq> None)"
  using assms
  by (auto simp: script_defs split: option.splits content.splits if_splits)

text \<open>Two runs on disks that hold the same source do the same and write the same.\<close>

lemma main_deterministic:
  assumes "fa input_svg = fb input_svg"
  shows "fst (main e (initial fa)) = fst (main e (initial fb)) \<and>
     trace (snd (main e (initial fa))) = trace (snd (main e (initial fb))) \<and>
     (\<forall>p \<in> set (written (trace (snd (main e (initial fa))))).
        files (snd (main e (initial fa))) p = files (snd (main e (initial fb))) p)"
  using assms
  by (auto simp: script_defs split: option.splits content.splits if_splits)

section \<open>Confirmations in a trace\<close>

lemma confirms_writtenD:
  "confirms_written ws tr \<Longrightarrow> tr = pre @ Printed l # post \<Longrightarrow>
     \<exists>f. l = created f \<and> (f \<in> set ws \<or> Wrote f \<in> set pre)"
proof (induction ws tr arbitrary: pre rule: confirms_written.induct)
  case (1 ws)
  then show ?case by simp
next
  case (2 ws p es)
  show ?case
  proof (cases pre)
    case Nil
    with "2.prems" show ?thesis by simp
  next
    case (Cons x pre')
    with "2.prems"(2) have x: "x = Wrote p" and es: "es = pre' @ Printed l # post"
      by simp_all
    from "2.prems"(1) have "confirms_written (p # ws) es" by simp
    from "2.IH" [OF this es] show ?thesis
      by (auto simp: Cons x)
  qed
next
  case (3 ws l' es)
  show ?case
  proof (cases pre)
    case Nil
    with "3.prems" show ?thesis by auto
  next
    case (Cons x pre')
    with "3.prems"(2) have es: "es = pre' @ Printed l # post"
      by simp
    from "3.prems"(1) have "confirms_written ws es" by simp
    from "3.IH" [OF this es] show ?thesis
      by (auto simp: Cons)
  qed
qed

lemma main_confirms_written:
  assumes "main e (initial fs) = (r, w')"
  shows "confirms_written [] (trace w')"
  using assms
  by (auto simp: script_defs split: option.splits content.splits if_splits)

lemma main_written_exists:
  assumes "main e (initial fs) = (r, w')" and "Wrote f \<in> set (trace w')"
  shows "files w' f \<noteq> None"
  using assms
  by (auto simp: script_defs split: option.splits content.splits if_splits)

text \<open>The sample run: every render succeeds and every write is allowed.\<close>

lemma sample_run:
  "main sample_env (initial sample_disk) =
    (Inr (),
     \<lparr>files = sample_disk
        (''favicon-16x16.png'' \<mapsto> Png \<lparr>width = 16, height = 16, pixels = Rendered 7 16 16\<rparr>,
         ''favicon-32x32.png'' \<mapsto> Png \<lparr>width = 32, height = 32, pixels = Rendered 7 32 32\<rparr>,
         ''apple-touch-icon.png'' \<mapsto> Png \<lparr>width = 180, height = 180, pixels = Rendered 7 180 180\<rparr>,
         ''temp_256.png'' \<mapsto> Png \<lparr>width = 256, height = 256, pixels = Rendered 7 256 256\<rparr>,
         ''favicon.ico'' \<mapsto> Ico
            [\<lparr>width = 16, height = 16, pixels = Resampled (Rendered 7 256 256) 16 16\<rparr>,
             \<lparr>width = 32, height = 32, pixels = Resampled (Rendered 7 256 256) 32 32\<rparr>,
             \<lparr>width = 48, height = 48, pixels = Resampled (Rendered 7 256 256) 48 48\<rparr>,
             \<lparr>width = 256, height = 256, pixels = Rendered 7 256 256\<rparr>]),
      trace =
        [Wrote ''favicon-16x16.png'', Printed ''Created favicon-16x16.png'',
         Wrote ''favicon-32x32.png'', Printed ''Created favicon-32x32.png'',
         Wrote ''apple-touch-icon.png'', Printed ''Created apple-touch-icon.png'',
         Wrote ''temp_256.png'', Wrote ''favicon.ico'', Printed ''Created favicon.ico'']\<rparr>)"
  by (simp add: script_defs sample_defs)

section \<open>Operation A: the batch of standalone PNGs\<close>

text \<open>
  Claim C1. When the loop over \<open>sizes\<close> completes, the files it has written are exactly
  the keys of \<open>sizes\<close>, once each and in insertion order, and every key holds a PNG raster
  whose width and height both equal the size listed for it: the rendering of the vector
  source at that size.
\<close>

theorem batch_rasterize_outputs:
  assumes "batch_rasterize e sizes w = (Inr u, w')"
  shows "written (trace w') = written (trace w) @ map fst sizes \<and>
    (\<exists>v. files w input_svg = Some (Svg v) \<and>
      (\<forall>(name, sz) \<in> set sizes. \<exists>px. rasterize e v sz sz = Some px \<and>
         files w' name = Some (Png \<lparr>width = sz, height = sz, pixels = px\<rparr>)))"
proof -
  from batch_sizes_Inr [OF assms] obtain v p16 p32 p180 where
    src: "files w input_svg = Some (Svg v)" and
    r: "rasterize e v 16 16 = Some p16" "rasterize e v 32 32 = Some p32"
       "rasterize e v 180 180 = Some p180" and
    w': "w' = w\<lparr>files := (files w)
        (''favicon-16x16.png'' \<mapsto> Png \<lparr>width = 16, height = 16, pixels = p16\<rparr>,
         ''favicon-32x32.png'' \<mapsto> Png \<lparr>width = 32, height = 32, pixels = p32\<rparr>,
         ''apple-touch-icon.png'' \<mapsto> Png \<lparr>width = 180, height = 180, pixels = p180\<rparr>),
       trace := trace w @
        [Wrote ''favicon-16x16.png'', Printed ''Created favicon-16x16.png'',
         Wrote ''favicon-32x32.png'', Printed ''Created favicon-32x32.png'',
         Wrote ''apple-touch-icon.png'', Printed ''Created apple-touch-icon.png'']\<rparr>"
    by blast
  have "written (trace w') = written (trace w) @ map fst sizes"
    by (simp add: w' written_append sizes_def)
  moreover have "\<forall>(name, sz) \<in> set sizes. \<exists>px. rasterize e v sz sz = Some px \<and>
         files w' name = Some (Png \<lparr>width = sz, height = sz, pixels = px\<rparr>)"
    by (simp add: w' r sizes_def)
  ultimately show ?thesis using src by blast
qed

theorem batch_rasterize_outputs_witness:
  "fst (batch_rasterize sample_env sizes (initial sample_disk)) = Inr () \<and>
   written (trace (snd (batch_rasterize sample_env sizes (initial sample_disk)))) =
     [''favicon-16x16.png'', ''favicon-32x32.png'', ''apple-touch-icon.png''] \<and>
   files (snd (batch_rasterize sample_env sizes (initial sample_disk))) ''favicon-16x16.png'' =
     Some (Png \<lparr>width = 16, height = 16, pixels = Rendered 7 16 16\<rparr>) \<and>
   files (snd (batch_rasterize sample_env sizes (initial sample_disk))) ''favicon-32x32.png'' =
     Some (Png \<lparr>width = 32, height = 32, pixels = Rendered 7 32 32\<rparr>) \<and>
   files (snd (batch_rasterize sample_env sizes (initial sample_disk))) ''apple-touch-icon.png'' =
     Some (Png \<lparr>width = 180, height = 180, pixels = Rendered 7 180 180\<rparr>)"
proof -
  obtain w' where run: "batch_rasterize sample_env sizes (initial sample_disk) = (Inr (), w')"
    by (simp add: script_defs sample_defs)
  from batch_rasterize_outputs [OF run] show ?thesis
    unfolding run by (auto simp: sizes_def initial_def input_svg_def sample_defs)
qed

section \<open>Operation C: the resolutions of the container\<close>

text \<open>
  Claim C2. Whatever dictionary the loop is run on, a run that completes leaves in
  \<^verbatim>\<open>favicon.ico\<close> a container that embeds exactly four frames, of 16x16, 32x32, 48x48 and
  256x256 pixels.
\<close>

theorem container_resolutions:
  assumes "pipeline e szs w = (Inr u, w')"
  shows "\<exists>frames. files w' ''favicon.ico'' = Some (Ico frames) \<and>
     map (\<lambda>r. (width r, height r)) frames = [(16, 16), (32, 32), (48, 48), (256, 256)]"
proof -
  from assms obtain w1 w2 where
    b: "high_res_render e w1 = (Inr (), w2)" and c: "pack_container e w2 = (Inr u, w')"
    unfolding pipeline_Inr by blast
  from b obtain px where
    t: "files w2 ''temp_256.png'' = Some (Png \<lparr>width = 256, height = 256, pixels = px\<rparr>)"
    unfolding high_res_render_Inr by auto
  from pack_container_Inr [OF c] t show ?thesis
    by (auto simp: ico_frame_def)
qed

theorem container_resolutions_witness:
  "fst (pipeline sample_env [(''icon-64.png'', 64)] (initial sample_disk)) = Inr () \<and>
   (\<exists>frames.
      files (snd (pipeline sample_env [(''icon-64.png'', 64)] (initial sample_disk)))
        ''favicon.ico'' = Some (Ico frames) \<and>
      map (\<lambda>r. (width r, height r)) frames = [(16, 16), (32, 32), (48, 48), (256, 256)])"
proof -
  obtain w' where
    run: "pipeline sample_env [(''icon-64.png'', 64)] (initial sample_disk) = (Inr (), w')"
    by (simp add: script_defs sample_defs)
  from container_resolutions [OF run] show ?thesis
    unfolding run by simp
qed

section \<open>Failures\<close>

text \<open>
  Claim C3. If the vector source is absent, the run raises a render failure and leaves the
  world exactly as it was: no file is created, nothing is written, nothing is printed.
  If the render of entry \<open>k\<close> of \<open>sizes\<close> raises after the entries before it have
  completed, the run ends with that error in the world those entries left: their files
  are written, their lines are printed, and nothing else happens afterwards.
\<close>

theorem failure_stops_run:
  "(files w input_svg = None \<longrightarrow> main e w = (Inl RenderFailure, w)) \<and>
   (\<forall>k err w1 w2.
      k < length sizes \<and>
      batch_rasterize e (take k sizes) w = (Inr (), w1) \<and>
      svg2png e input_svg (fst (sizes ! k)) (snd (sizes ! k)) (snd (sizes ! k)) w1 =
        (Inl err, w2) \<longrightarrow>
        main e w = (Inl err, w1) \<and>
        written (trace w1) = written (trace w) @ map fst (take k sizes) \<and>
        console (trace w1) = console (trace w) @ map (\<lambda>(n, s). created n) (take k sizes) \<and>
        (\<forall>(n, s) \<in> set (take k sizes).
            \<exists>px. files w1 n = Some (Png \<lparr>width = s, height = s, pixels = px\<rparr>)))"
proof (intro conjI allI impI)
  assume "files w input_svg = None"
  then show "main e w = (Inl RenderFailure, w)" by (rule main_missing_source)
next
  fix k err w1 w2
  assume a: "k < length sizes \<and>
      batch_rasterize e (take k sizes) w = (Inr (), w1) \<and>
      svg2png e input_svg (fst (sizes ! k)) (snd (sizes ! k)) (snd (sizes ! k)) w1 =
        (Inl err, w2)"
  then have k: "k < length sizes"
    and pre: "batch_rasterize e (take k sizes) w = (Inr (), w1)"
    and fail: "svg2png e input_svg (fst (sizes ! k)) (snd (sizes ! k)) (snd (sizes ! k)) w1 =
        (Inl err, w2)"
    by simp_all
  have split: "sizes = take k sizes @ (fst (sizes ! k), snd (sizes ! k)) # drop (Suc k) sizes"
    using k by (simp add: id_take_nth_drop)
  have "pipeline e (take k sizes @ (fst (sizes ! k), snd (sizes ! k)) # drop (Suc k) sizes) w =
      (Inl err, w1)"
    by (rule pipeline_stops_in_batch [OF pre fail])
  with split show "main e w = (Inl err, w1)"
    by (simp add: main_def)
  show "written (trace w1) = written (trace w) @ map fst (take k sizes)"
    by (rule batch_written [OF pre])
  show "console (trace w1) = console (trace w) @ map (\<lambda>(n, s). created n) (take k sizes)"
    by (rule batch_console [OF pre])
  have "distinct (map fst sizes)" by (simp add: sizes_def)
  then have d: "distinct (map fst (take k sizes))"
    by (simp add: take_map [symmetric] distinct_take)
  show "\<forall>(n, s) \<in> set (take k sizes).
            \<exists>px. files w1 n = Some (Png \<lparr>width = s, height = s, pixels = px\<rparr>)"
    using batch_files [OF pre d] by blast
qed

theorem failure_stops_run_witness:
  "files (initial empty_disk) input_svg = None \<and>
   main sample_env (initial empty_disk) = (Inl RenderFailure, initial empty_disk) \<and>
   (1::nat) < length sizes \<and>
   fst (batch_rasterize locked_env (take 1 sizes) (initial sample_disk)) = Inr () \<and>
   fst (svg2png locked_env input_svg (fst (sizes ! 1)) (snd (sizes ! 1)) (snd (sizes ! 1))
          (snd (batch_rasterize locked_env (take 1 sizes) (initial sample_disk)))) =
     Inl WriteFailure \<and>
   fst (main locked_env (initial sample_disk)) = Inl WriteFailure \<and>
   written (trace (snd (main locked_env (initial sample_disk)))) = [''favicon-16x16.png''] \<and>
   console (trace (snd (main locked_env (initial sample_disk)))) =
     [''Created favicon-16x16.png''] \<and>
   files (snd (main locked_env (initial sample_disk))) ''favicon-16x16.png'' =
     Some (Png \<lparr>width = 16, height = 16, pixels = Rendered 7 16 16\<rparr>) \<and>
   files (snd (main locked_env (initial sample_disk))) ''favicon-32x32.png'' = None"
proof -
  have absent: "files (initial empty_disk) input_svg = None"
    by (simp add: initial_def empty_disk_def)
  have k: "(1::nat) < length sizes"
    by (simp add: sizes_def)
  obtain w1 where pre: "batch_rasterize locked_env (take 1 sizes) (initial sample_disk) = (Inr (), w1)"
    by (simp add: script_defs sample_defs)
  have w1: "w1 = \<lparr>files = sample_disk(''favicon-16x16.png'' \<mapsto>
                    Png \<lparr>width = 16, height = 16, pixels = Rendered 7 16 16\<rparr>),
                  trace = [Wrote ''favicon-16x16.png'', Printed ''Created favicon-16x16.png'']\<rparr>"
    using pre by (simp add: script_defs sample_defs)
  have fail: "svg2png locked_env input_svg (fst (sizes ! 1)) (snd (sizes ! 1)) (snd (sizes ! 1)) w1 =
      (Inl WriteFailure, w1)"
    by (simp add: w1 script_defs sample_defs)
  from failure_stops_run [of "initial empty_disk" sample_env] absent
  have first: "main sample_env (initial empty_disk) = (Inl RenderFailure, initial empty_disk)"
    by blast
  from failure_stops_run [of "initial sample_disk" locked_env] k pre fail
  have second: "main locked_env (initial sample_disk) = (Inl WriteFailure, w1) \<and>
      written (trace w1) = written (trace (initial sample_disk)) @ map fst (take 1 sizes) \<and>
      console (trace w1) =
        console (trace (initial sample_disk)) @ map (\<lambda>(n, s). created n) (take 1 sizes)"
    by blast
  have failed: "fst (svg2png locked_env input_svg (fst (sizes ! 1)) (snd (sizes ! 1)) (snd (sizes ! 1))
          w1) = Inl WriteFailure"
    by (simp only: fail fst_conv)
  have run: "main locked_env (initial sample_disk) = (Inl WriteFailure, w1)"
    using second by blast
  have left: "written (trace w1) = [''favicon-16x16.png'']"
    "console (trace w1) = [''Created favicon-16x16.png'']"
    "files w1 ''favicon-16x16.png'' =
        Some (Png \<lparr>width = 16, height = 16, pixels = Rendered 7 16 16\<rparr>)"
    "files w1 ''favicon-32x32.png'' = None"
    by (simp_all add: w1 sample_defs)
  show ?thesis
    unfolding run pre fst_conv snd_conv
    using absent first k failed left by blast
qed

section \<open>Order of execution\<close>

text \<open>
  Claim C4. A run that completes has executed Operation A over all of \<open>sizes\<close>, then
  Operation B in the world A left, then Operation C in the world B left. Its effects, in
  order: each entry of \<open>sizes\<close> in insertion order is written and then confirmed, the
  temporary file is written, the container is written and then confirmed. The console
  holds the three size-entry lines followed by the container line.
\<close>

theorem execution_order:
  assumes "main e w = (Inr u, w')"
  shows "(\<exists>w1 w2. batch_rasterize e sizes w = (Inr (), w1) \<and>
            high_res_render e w1 = (Inr (), w2) \<and> pack_container e w2 = (Inr (), w')) \<and>
    trace w' = trace w @
      [Wrote ''favicon-16x16.png'', Printed ''Created favicon-16x16.png'',
       Wrote ''favicon-32x32.png'', Printed ''Created favicon-32x32.png'',
       Wrote ''apple-touch-icon.png'', Printed ''Created apple-touch-icon.png'',
       Wrote ''temp_256.png'', Wrote ''favicon.ico'', Printed ''Created favicon.ico''] \<and>
    console (trace w') = console (trace w) @
      [''Created favicon-16x16.png'', ''Created favicon-32x32.png'',
       ''Created apple-touch-icon.png'', ''Created favicon.ico'']"
proof -
  from assms have "\<exists>w1 w2. batch_rasterize e sizes w = (Inr (), w1) \<and>
            high_res_render e w1 = (Inr (), w2) \<and> pack_container e w2 = (Inr (), w')"
    by (simp add: main_def pipeline_Inr)
  moreover from main_Inr [OF assms] have t: "trace w' = trace w @
      [Wrote ''favicon-16x16.png'', Printed ''Created favicon-16x16.png'',
       Wrote ''favicon-32x32.png'', Printed ''Created favicon-32x32.png'',
       Wrote ''apple-touch-icon.png'', Printed ''Created apple-touch-icon.png'',
       Wrote ''temp_256.png'', Wrote ''favicon.ico'', Printed ''Created favicon.ico'']"
    by auto
  moreover have "console (trace w') = console (trace w) @
      [''Created favicon-16x16.png'', ''Created favicon-32x32.png'',
       ''Created apple-touch-icon.png'', ''Created favicon.ico'']"
    by (simp add: t console_append)
  ultimately show ?thesis by blast
qed

theorem execution_order_witness:
  "fst (main sample_env (initial sample_disk)) = Inr () \<and>
   trace (snd (main sample_env (initial sample_disk))) =
      [Wrote ''favicon-16x16.png'', Printed ''Created favicon-16x16.png'',
       Wrote ''favicon-32x32.png'', Printed ''Created favicon-32x32.png'',
       Wrote ''apple-touch-icon.png'', Printed ''Created apple-touch-icon.png'',
       Wrote ''temp_256.png'', Wrote ''favicon.ico'', Printed ''Created favicon.ico''] \<and>
   console (trace (snd (main sample_env (initial sample_disk)))) =
      [''Created favicon-16x16.png'', ''Created favicon-32x32.png'',
       ''Created apple-touch-icon.png'', ''Created favicon.ico'']"
proof -
  obtain w' where run: "main sample_env (initial sample_disk) = (Inr (), w')"
    by (simp add: sample_run)
  from execution_order [OF run] show ?thesis
    unfolding run by (simp add: initial_def)
qed

section \<open>Confirmation lines\<close>




section \<open>Determinism of a run\<close>

text \<open>
  Claim C6. The renderer being a function of the source and the requested size, a run
  depends on the disk through the content of the vector source only: on two disks that hold
  the same source, the run ends the same way, has the same effects in the same order and
  leaves the same content in every file it writes. Running the script again on the disk a
  run has left ends the same way and leaves every file as it was.
\<close>

theorem rerun_deterministic:
  "(fs1 input_svg = fs2 input_svg \<longrightarrow>
      fst (main e (initial fs1)) = fst (main e (initial fs2)) \<and>
      trace (snd (main e (initial fs1))) = trace (snd (main e (initial fs2))) \<and>
      (\<forall>p \<in> set (written (trace (snd (main e (initial fs1))))).
         files (snd (main e (initial fs1))) p = files (snd (main e (initial fs2))) p)) \<and>
   fst (main e (initial (files (snd (main e (initial fs)))))) = fst (main e (initial fs)) \<and>
   files (snd (main e (initial (files (snd (main e (initial fs))))))) =
     files (snd (main e (initial fs)))"
proof (intro conjI impI)
  assume "fs1 input_svg = fs2 input_svg"
  from main_deterministic [of fs1 fs2 e, OF this]
  show "fst (main e (initial fs1)) = fst (main e (initial fs2))"
    and "trace (snd (main e (initial fs1))) = trace (snd (main e (initial fs2)))"
    and "\<forall>p \<in> set (written (trace (snd (main e (initial fs1))))).
         files (snd (main e (initial fs1))) p = files (snd (main e (initial fs2))) p"
    by blast+
next
  obtain r1 w1 where run1: "main e (initial fs) = (r1, w1)"
    by (cases "main e (initial fs)")
  obtain r2 w2 where run2: "main e (initial (files w1)) = (r2, w2)"
    by (cases "main e (initial (files w1))")
  from main_frame [OF run1] have src: "files w1 input_svg = fs input_svg"
    by blast
  note det = main_deterministic [of "files w1" fs e, OF src, unfolded run1 run2 fst_conv snd_conv]
  from det show "fst (main e (initial (files (snd (main e (initial fs)))))) =
      fst (main e (initial fs))"
    by (simp add: run1 run2)
  have "files w2 p = files w1 p" for p
  proof (cases "p \<in> set (written (trace w2))")
    case True
    with det show ?thesis by blast
  next
    case False
    with main_frame [OF run2] show ?thesis by blast
  qed
  then show "files (snd (main e (initial (files (snd (main e (initial fs))))))) =
     files (snd (main e (initial fs)))"
    by (simp add: run1 run2 fun_eq_iff)
qed

theorem rerun_deterministic_witness:
  "sample_disk input_svg = (sample_disk(''stale.png'' \<mapsto> Svg 3)) input_svg \<and>
   fst (main sample_env (initial (sample_disk(''stale.png'' \<mapsto> Svg 3)))) = Inr () \<and>
   trace (snd (main sample_env (initial (sample_disk(''stale.png'' \<mapsto> Svg 3))))) =
     trace (snd (main sample_env (initial sample_disk))) \<and>
   files (snd (main sample_env (initial (sample_disk(''stale.png'' \<mapsto> Svg 3)))))
     ''apple-touch-icon.png'' =
     Some (Png \<lparr>width = 180, height = 180, pixels = Rendered 7 180 180\<rparr>) \<and>
   files (snd (main sample_env (initial (files (snd (main sample_env (initial sample_disk))))))) =
     files (snd (main sample_env (initial sample_disk)))"
proof -
  have same: "sample_disk input_svg = (sample_disk(''stale.png'' \<mapsto> Svg 3)) input_svg"
    by (simp add: input_svg_def)
  have apple: "''apple-touch-icon.png'' \<in>
      set (written (trace (snd (main sample_env (initial sample_disk)))))"
    by (simp add: sample_run)
  from rerun_deterministic [of sample_disk "sample_disk(''stale.png'' \<mapsto> Svg 3)" sample_env
      sample_disk] same apple
  show ?thesis
    by (auto simp: sample_run)
qed

section \<open>The temporary file\<close>

text \<open>
  Claim C7. Operation B renders the vector source at 256x256 and writes that raster to
  \<^verbatim>\<open>temp_256.png\<close>, a path that is not a key of \<open>sizes\<close>. However Operation C ends, the
  run ends in the world C left, and the temporary file is still on disk there, holding the
  raster B wrote.
\<close>

theorem temporary_file_kept:
  assumes "batch_rasterize e sizes w = (Inr u, w1)"
    and "high_res_render e w1 = (Inr u', w2)"
    and "pack_container e w2 = (r, w3)"
  shows "''temp_256.png'' \<notin> fst ` set sizes \<and> main e w = (r, w3) \<and>
    (\<exists>v px. files w input_svg = Some (Svg v) \<and> rasterize e v 256 256 = Some px \<and>
          files w2 ''temp_256.png'' = Some (Png \<lparr>width = 256, height = 256, pixels = px\<rparr>) \<and>
          files w3 ''temp_256.png'' = Some (Png \<lparr>width = 256, height = 256, pixels = px\<rparr>))"
proof -
  have "''temp_256.png'' \<notin> fst ` set sizes"
    by (simp add: sizes_def)
  moreover from assms have "main e w = (r, w3)"
    by (simp add: main_def pipeline_def)
  moreover have "input_svg \<notin> fst ` set sizes"
    by (simp add: sizes_def input_svg_def)
  then have src: "files w1 input_svg = files w input_svg"
    by (rule batch_frame [OF assms(1)])
  from assms(2) obtain v px where
    "files w1 input_svg = Some (Svg v)" and "rasterize e v 256 256 = Some px" and
    "files w2 ''temp_256.png'' = Some (Png \<lparr>width = 256, height = 256, pixels = px\<rparr>)"
    unfolding high_res_render_Inr by auto
  moreover note src pack_container_keeps_temp [OF assms(3)]
  ultimately show ?thesis by simp
qed

theorem temporary_file_kept_witness:
  "fst (batch_rasterize sample_env sizes (initial sample_disk)) = Inr () \<and>
   fst (high_res_render sample_env (snd (batch_rasterize sample_env sizes (initial sample_disk)))) =
     Inr () \<and>
   ''temp_256.png'' \<notin> fst ` set sizes \<and>
   files (initial sample_disk) input_svg = Some (Svg 7) \<and>
   rasterize sample_env 7 256 256 = Some (Rendered 7 256 256) \<and>
   fst (main sample_env (initial sample_disk)) = Inr () \<and>
   files (snd (main sample_env (initial sample_disk))) ''temp_256.png'' =
     Some (Png \<lparr>width = 256, height = 256, pixels = Rendered 7 256 256\<rparr>)"
proof -
  define w1 where "w1 = snd (batch_rasterize sample_env sizes (initial sample_disk))"
  have a: "batch_rasterize sample_env sizes (initial sample_disk) = (Inr (), w1)"
    by (simp add: w1_def script_defs sample_defs)
  define w2 where "w2 = snd (high_res_render sample_env w1)"
  have b: "high_res_render sample_env w1 = (Inr (), w2)"
    by (simp add: w2_def w1_def script_defs sample_defs)
  obtain r w3 where c: "pack_container sample_env w2 = (r, w3)"
    by (cases "pack_container sample_env w2")
  have src: "files (initial sample_disk) input_svg = Some (Svg 7)"
    by (simp add: initial_def sample_defs input_svg_def)
  have ren: "rasterize sample_env 7 256 256 = Some (Rendered 7 256 256)"
    by (simp add: sample_defs)
  from temporary_file_kept [OF a b c] src ren
  have kept: "''temp_256.png'' \<notin> fst ` set sizes"
    and m: "main sample_env (initial sample_disk) = (r, w3)"
    and val: "files w3 ''temp_256.png'' =
      Some (Png \<lparr>width = 256, height = 256, pixels = Rendered 7 256 256\<rparr>)"
    by auto
  have r: "r = Inr ()"
    using m by (simp add: sample_run)
  show ?thesis
    unfolding a b m fst_conv snd_conv
    using kept src ren val r by blast
qed

section \<open>What a run touches\<close>

text \<open>
  Claim C8. In any run, completed or not, the vector source is never written and holds at
  the end what it held at the start; no path is written more than once; every path the run
  did not write holds at the end what it held at the start; every path the run wrote exists
  at the end. A run that completes has written exactly the five outputs.
\<close>

theorem write_once_frame:
  assumes "main e (initial fs) = (r, w')"
  shows "input_svg \<notin> set (written (trace w')) \<and> files w' input_svg = fs input_svg \<and>
    distinct (written (trace w')) \<and>
    (\<forall>p. p \<notin> set (written (trace w')) \<longrightarrow> files w' p = fs p) \<and>
    (\<forall>p \<in> set (written (trace w')). files w' p \<noteq> None) \<and>
    (r = Inr () \<longrightarrow> written (trace w') =
       [''favicon-16x16.png'', ''favicon-32x32.png'', ''apple-touch-icon.png'',
        ''temp_256.png'', ''favicon.ico''])"
proof -
  note frame = main_frame [OF assms]
  have "r = Inr () \<longrightarrow> written (trace w') =
       [''favicon-16x16.png'', ''favicon-32x32.png'', ''apple-touch-icon.png'',
        ''temp_256.png'', ''favicon.ico'']"
  proof
    assume "r = Inr ()"
    with assms have "main e (initial fs) = (Inr (), w')" by simp
    from main_Inr [OF this] show "written (trace w') =
       [''favicon-16x16.png'', ''favicon-32x32.png'', ''apple-touch-icon.png'',
        ''temp_256.png'', ''favicon.ico'']"
      by (auto simp: initial_def)
  qed
  with frame show ?thesis by blast
qed

theorem write_once_frame_witness:
  "fst (main sample_env (initial sample_disk)) = Inr () \<and>
   input_svg \<notin> set (written (trace (snd (main sample_env (initial sample_disk))))) \<and>
   files (snd (main sample_env (initial sample_disk))) input_svg = Some (Svg 7) \<and>
   distinct (written (trace (snd (main sample_env (initial sample_disk))))) \<and>
   written (trace (snd (main sample_env (initial sample_disk)))) =
       [''favicon-16x16.png'', ''favicon-32x32.png'', ''apple-touch-icon.png'',
        ''temp_256.png'', ''favicon.ico''] \<and>
   files (snd (main sample_env (initial sample_disk))) ''notes.txt'' = None"
proof -
  obtain w' where run: "main sample_env (initial sample_disk) = (Inr (), w')"
    by (simp add: sample_run)
  from write_once_frame [OF run] show ?thesis
    unfolding run by (auto simp: sample_defs input_svg_def)
qed

section \<open>Operation C: what the container is built from\<close>

text \<open>
  Claim C9. In a run that completes, \<^verbatim>\<open>favicon.ico\<close> holds a container whose 256x256
  frame is the raster Operation B rendered from the vector source and left in
  \<^verbatim>\<open>temp_256.png\<close>, and whose 16, 32 and 48 pixel frames are that raster resampled to
  those sizes.
\<close>

theorem container_from_high_res:
  assumes "main e w = (Inr u, w')"
  shows "\<exists>v px. files w input_svg = Some (Svg v) \<and> rasterize e v 256 256 = Some px \<and>
    files w' ''temp_256.png'' = Some (Png \<lparr>width = 256, height = 256, pixels = px\<rparr>) \<and>
    files w' ''favicon.ico'' = Some (Ico
      [\<lparr>width = 16, height = 16,
        pixels = resample e \<lparr>width = 256, height = 256, pixels = px\<rparr> (16, 16)\<rparr>,
       \<lparr>width = 32, height = 32,
        pixels = resample e \<lparr>width = 256, height = 256, pixels = px\<rparr> (32, 32)\<rparr>,
       \<lparr>width = 48, height = 48,
        pixels = resample e \<lparr>width = 256, height = 256, pixels = px\<rparr> (48, 48)\<rparr>,
       \<lparr>width = 256, height = 256, pixels = px\<rparr>])"
  using main_Inr [OF assms] by auto

theorem container_from_high_res_witness:
  "fst (main sample_env (initial sample_disk)) = Inr () \<and>
   files (snd (main sample_env (initial sample_disk))) ''temp_256.png'' =
     Some (Png \<lparr>width = 256, height = 256, pixels = Rendered 7 256 256\<rparr>) \<and>
   files (snd (main sample_env (initial sample_disk))) ''favicon.ico'' = Some (Ico
      [\<lparr>width = 16, height = 16, pixels = Resampled (Rendered 7 256 256) 16 16\<rparr>,
       \<lparr>width = 32, height = 32, pixels = Resampled (Rendered 7 256 256) 32 32\<rparr>,
       \<lparr>width = 48, height = 48, pixels = Resampled (Rendered 7 256 256) 48 48\<rparr>,
       \<lparr>width = 256, height = 256, pixels = Rendered 7 256 256\<rparr>])"
proof -
  obtain w' where run: "main sample_env (initial sample_disk) = (Inr (), w')"
    by (simp add: sample_run)
  from container_from_high_res [OF run] show ?thesis
    unfolding run by (auto simp: initial_def sample_defs input_svg_def)
qed

section \<open>Confirmation follows the write\<close>

text \<open>
  Claim C10. In any run, completed or not, every line on the console is the confirmation
  of a file whose write completed earlier in the run, and that file exists on disk at the
  end. So no line is printed for an entry whose render or write raised.
\<close>

theorem confirmation_after_write:
  assumes "main e (initial fs) = (r, w')" and "trace w' = pre @ Printed l # post"
  shows "\<exists>f. l = created f \<and> Wrote f \<in> set pre \<and> files w' f \<noteq> None"
proof -
  from confirms_writtenD [OF main_confirms_written [OF assms(1)] assms(2)]
  obtain f where f: "l = created f" "Wrote f \<in> set pre" by auto
  then have "Wrote f \<in> set (trace w')" by (simp add: assms(2))
  from main_written_exists [OF assms(1) this] f show ?thesis by blast
qed

theorem confirmation_after_write_witness:
  "trace (snd (main locked_env (initial sample_disk))) =
     [Wrote ''favicon-16x16.png''] @ Printed ''Created favicon-16x16.png'' # [] \<and>
   (\<exists>f. ''Created favicon-16x16.png'' = created f \<and>
        Wrote f \<in> set [Wrote ''favicon-16x16.png''] \<and>
        files (snd (main locked_env (initial sample_disk))) f \<noteq> None)"
proof -
  obtain r w' where run: "main locked_env (initial sample_disk) = (r, w')"
    by (cases "main locked_env (initial sample_disk)")
  have t: "trace w' = [Wrote ''favicon-16x16.png''] @ Printed ''Created favicon-16x16.png'' # []"
    using run by (auto simp: script_defs sample_defs)
  from confirmation_after_write [OF run t] t show ?thesis
    unfolding run by simp
qed

end
